theory Spec2Isabelle
  imports Main
begin

section \<open>Wire types (types/apiTypes.ts)\<close>

text \<open>
  \<^verbatim>\<open>ExecutionUpdate\<close> and \<^verbatim>\<open>WebSocketMessage\<close> as declared. An optional field is an
  \<open>option\<close>, \<open>None\<close> standing for \<^verbatim>\<open>undefined\<close>. The number \<^verbatim>\<open>progress\<close> is never
  computed with and is kept as an integer.
\<close>

record execution_update =
  upd_type :: string
  upd_execution_id :: string
  upd_status :: string
  upd_progress :: int
  upd_current_agent :: "string option"
  upd_current_task :: "string option"
  upd_output :: "string option"
  upd_error :: "string option"

text \<open>
  \<^verbatim>\<open>data?: any\<close>: the three shapes of object this code builds or reads.
  \<open>ClientInfo\<close> is \<^verbatim>\<open>{ clientId }\<close>, \<open>CloseInfo\<close> is \<^verbatim>\<open>{ code, reason }\<close>, \<open>Update\<close> is an
  \<^verbatim>\<open>ExecutionUpdate\<close>.
\<close>

datatype payload = ClientInfo string | CloseInfo nat string | Update execution_update

record message =
  msg_type :: string
  execution_id :: "string option"
  data :: "payload option"
  timestamp :: "string option"
  error :: "string option"

text \<open>The object literals passed to \<^verbatim>\<open>sendMessage\<close>: a type and, for some, an execution id.\<close>

record frame =
  frame_type :: string
  frame_execution_id :: "string option"

text \<open>
  The argument \<^verbatim>\<open>message: any\<close> of \<^verbatim>\<open>sendMessage\<close>: an object of the frame shape, which
  \<^verbatim>\<open>JSON.stringify\<close> turns into text (the frame stands for its text), or a value on which
  \<^verbatim>\<open>JSON.stringify\<close> throws a \<^verbatim>\<open>TypeError\<close>: a circular structure, a BigInt.
\<close>

datatype js_value = Serialisable frame | Unserialisable

text \<open>Reading the property \<^verbatim>\<open>type\<close> of a payload object: \<open>None\<close> is \<^verbatim>\<open>undefined\<close>.\<close>

fun payload_type :: "payload \<Rightarrow> string option" where
  "payload_type (ClientInfo c) = None"
| "payload_type (CloseInfo c r) = None"
| "payload_type (Update u) = Some (upd_type u)"

section \<open>The platform: errors, console, sockets, timers, promises\<close>

datatype js_error =
    SyntaxError
  | TypeError
  | InvalidStateError
  | Error string
  | ErrorEvent
  | ListenerError nat

datatype console_arg = Num nat | Str string | Err js_error

datatype console_entry =
    ConsoleLog string "console_arg list"
  | ConsoleWarn string "console_arg list"
  | ConsoleError string "console_arg list"

datatype ready_state = CONNECTING | OPEN | CLOSING | CLOSED

text \<open>
  A \<^verbatim>\<open>WebSocket\<close> object: its ready state, the frames handed to \<^verbatim>\<open>send\<close> while open
  (the frame stands for its \<^verbatim>\<open>JSON.stringify\<close> text), the arguments of an accepted call of
  \<^verbatim>\<open>close\<close>, and the promise of the \<^verbatim>\<open>connect()\<close> call whose \<^verbatim>\<open>resolve\<close> and \<^verbatim>\<open>reject\<close> its
  handlers captured.
\<close>

record sock =
  readyState :: ready_state
  sent :: "frame list"
  closeRequest :: "(nat \<times> string) option"
  connectPromise :: nat

text \<open>
  Closures are defunctionalised. A handler is a listener registered by a caller (known by a
  number; it is called, and returns or throws; what a caller does to the client is an
  event of its own, see \<open>step\<close>), or the \<^verbatim>\<open>handler\<close> closure of
  \<^verbatim>\<open>waitForMessage\<close> (type, timeout id, promise) or of \<^verbatim>\<open>waitForCompletion\<close> (execution id,
  timeout id, promise). Two handlers are the same function object iff they are equal.
\<close>

datatype handler =
    Listener nat
  | WaitForMessageHandler string nat nat
  | WaitForCompletionHandler string nat nat

text \<open>The callbacks given to \<^verbatim>\<open>setTimeout\<close>, with the variables they captured.\<close>

datatype timer_callback =
    ReconnectCallback
  | WaitForMessageTimeout string handler nat
  | WaitForCompletionTimeout string handler nat

record timer =
  timer_id :: nat
  delay :: nat
  callback :: timer_callback

text \<open>
  A promise is pending or settled; \<open>Fulfilled None\<close> is a \<^verbatim>\<open>Promise<void>\<close> resolved.
  \<open>ReconnectTask\<close> marks the promise of \<^verbatim>\<open>connect()\<close> awaited inside the timer callback of
  \<^verbatim>\<open>attemptReconnect\<close>, whose continuation resubscribes; every other promise is handed
  to the caller.
\<close>

datatype promise_state = Pending | Fulfilled "message option" | Rejected js_error

datatype awaiter = Caller | ReconnectTask

record promise =
  pstate :: promise_state
  awaited_by :: awaiter

section \<open>The client object and its surroundings\<close>

text \<open>
  The fields of \<^verbatim>\<open>WebSocketClient\<close> (\<open>ws\<close> holds the identity of a socket), then the
  platform state the methods act on: every socket created, the pending timers, every
  timer \<^verbatim>\<open>setTimeout\<close> was ever asked for (\<open>scheduled\<close>, which only grows), the promises,
  the console, and a record of each handler call made by \<^verbatim>\<open>emit\<close>.
  \<open>listener_throws i m\<close> says whether listener \<open>i\<close> throws when called with \<open>m\<close>;
  \<open>url_valid\<close> whether the \<^verbatim>\<open>WebSocket\<close> constructor accepts the URL.
  \<^verbatim>\<open>maxReconnectAttempts\<close> and \<^verbatim>\<open>reconnectDelay\<close> are never assigned after
  initialisation and are constants.
\<close>

record world =
  ws :: "nat option"
  clientId :: string
  connected :: bool
  reconnectAttempts :: nat
  eventHandlers :: "string \<rightharpoonup> handler list"
  subscriptions :: "string list"
  url_valid :: bool
  socks :: "nat \<rightharpoonup> sock"
  timers :: "timer list"
  scheduled :: "timer list"
  promises :: "nat \<rightharpoonup> promise"
  console :: "console_entry list"
  calls :: "(handler \<times> message) list"
  listener_throws :: "nat \<Rightarrow> message \<Rightarrow> bool"
  next_id :: nat

definition maxReconnectAttempts :: nat where
  "maxReconnectAttempts = 5"

definition reconnectDelay :: nat where
  "reconnectDelay = 1000"

definition new_client :: "string \<Rightarrow> bool \<Rightarrow> (nat \<Rightarrow> message \<Rightarrow> bool) \<Rightarrow> world" where
  "new_client cid ok thr =
     \<lparr> ws = None, clientId = cid, connected = False, reconnectAttempts = 0,
       eventHandlers = Map.empty, subscriptions = [], url_valid = ok,
       socks = Map.empty, timers = [], scheduled = [], promises = Map.empty, console = [],
       calls = [], listener_throws = thr, next_id = 0 \<rparr>"

subsection \<open>Platform operations\<close>

definition console_log :: "string \<Rightarrow> console_arg list \<Rightarrow> world \<Rightarrow> world" where
  "console_log s as w = w\<lparr>console := console w @ [ConsoleLog s as]\<rparr>"

definition console_warn :: "string \<Rightarrow> console_arg list \<Rightarrow> world \<Rightarrow> world" where
  "console_warn s as w = w\<lparr>console := console w @ [ConsoleWarn s as]\<rparr>"

definition console_error :: "string \<Rightarrow> console_arg list \<Rightarrow> world \<Rightarrow> world" where
  "console_error s as w = w\<lparr>console := console w @ [ConsoleError s as]\<rparr>"

text \<open>
  \<^verbatim>\<open>WebSocket.send\<close>: throws while the socket is connecting, queues the data while it is
  open, and silently discards it while closing or closed.
\<close>

definition sock_send :: "nat \<Rightarrow> frame \<Rightarrow> world \<Rightarrow> js_error + world" where
  "sock_send s f w =
     (case socks w s of
        None \<Rightarrow> Inl TypeError
      | Some sk \<Rightarrow>
          (case readyState sk of
             CONNECTING \<Rightarrow> Inl InvalidStateError
           | OPEN \<Rightarrow> Inr (w\<lparr>socks := (socks w)(s \<mapsto> sk\<lparr>sent := sent sk @ [f]\<rparr>)\<rparr>)
           | CLOSING \<Rightarrow> Inr w
           | CLOSED \<Rightarrow> Inr w))"

text \<open>
  \<^verbatim>\<open>WebSocket.close(code, reason)\<close>: nothing when already closing or closed, otherwise
  the closing handshake starts (code 1000 and a short reason are always accepted).
\<close>

definition sock_close :: "nat \<Rightarrow> nat \<Rightarrow> string \<Rightarrow> world \<Rightarrow> world" where
  "sock_close s c r w =
     (case socks w s of
        None \<Rightarrow> w
      | Some sk \<Rightarrow>
          if readyState sk = CLOSING \<or> readyState sk = CLOSED then w
          else w\<lparr>socks := (socks w)(s \<mapsto> sk\<lparr>readyState := CLOSING, closeRequest := Some (c, r)\<rparr>)\<rparr>)"

definition setTimeout :: "timer_callback \<Rightarrow> nat \<Rightarrow> world \<Rightarrow> world" where
  "setTimeout cb d w =
     w\<lparr>timers := timers w @ [\<lparr>timer_id = next_id w, delay = d, callback = cb\<rparr>],
       scheduled := scheduled w @ [\<lparr>timer_id = next_id w, delay = d, callback = cb\<rparr>],
       next_id := Suc (next_id w)\<rparr>"

definition clearTimeout :: "nat \<Rightarrow> world \<Rightarrow> world" where
  "clearTimeout t w = w\<lparr>timers := filter (\<lambda>x. timer_id x \<noteq> t) (timers w)\<rparr>"

text \<open>Insertion-ordered \<^verbatim>\<open>Set<string>\<close>: \<^verbatim>\<open>add\<close> and \<^verbatim>\<open>delete\<close>.\<close>

definition set_add :: "string \<Rightarrow> string list \<Rightarrow> string list" where
  "set_add x xs = (if x \<in> set xs then xs else xs @ [x])"

definition set_delete :: "string \<Rightarrow> string list \<Rightarrow> string list" where
  "set_delete x xs = removeAll x xs"

section \<open>WebSocketClient (services/websocket.ts)\<close>

definition isConnected :: "world \<Rightarrow> bool" where
  "isConnected w =
     (connected w \<and>
      (case ws w of
         None \<Rightarrow> False
       | Some s \<Rightarrow> (case socks w s of None \<Rightarrow> False | Some sk \<Rightarrow> readyState sk = OPEN)))"

fun JSON_stringify :: "js_value \<Rightarrow> js_error + frame" where
  "JSON_stringify (Serialisable f) = Inr f"
| "JSON_stringify Unserialisable = Inl TypeError"

text \<open>
  \<^verbatim>\<open>this.ws!.send(JSON.stringify(message))\<close>: the argument is evaluated before the call, so
  what \<^verbatim>\<open>JSON.stringify\<close> throws leaves \<^verbatim>\<open>sendMessage\<close> with nothing sent.
\<close>

definition sendMessage :: "js_value \<Rightarrow> world \<Rightarrow> js_error + world" where
  "sendMessage message w =
     (if isConnected w then
        (case ws w of
           None \<Rightarrow> Inl TypeError
         | Some s \<Rightarrow>
             (case JSON_stringify message of
                Inl e \<Rightarrow> Inl e
              | Inr f \<Rightarrow> sock_send s f w))
      else Inr (console_warn ''WebSocket not connected, cannot send message'' [] w))"

text \<open>The \<^verbatim>\<open>async\<close> methods: \<open>Inl\<close> is the returned promise rejected with what was thrown.\<close>

definition subscribe :: "string \<Rightarrow> world \<Rightarrow> js_error + world" where
  "subscribe executionId w =
     (case sendMessage (Serialisable \<lparr>frame_type = ''subscribe'', frame_execution_id = Some executionId\<rparr>) w of
        Inl e \<Rightarrow> Inl e
      | Inr w' \<Rightarrow> Inr (w'\<lparr>subscriptions := set_add executionId (subscriptions w')\<rparr>))"

definition unsubscribe :: "string \<Rightarrow> world \<Rightarrow> js_error + world" where
  "unsubscribe executionId w =
     (case sendMessage (Serialisable \<lparr>frame_type = ''unsubscribe'', frame_execution_id = Some executionId\<rparr>) w of
        Inl e \<Rightarrow> Inl e
      | Inr w' \<Rightarrow> Inr (w'\<lparr>subscriptions := set_delete executionId (subscriptions w')\<rparr>))"

definition cancelExecution :: "string \<Rightarrow> world \<Rightarrow> js_error + world" where
  "cancelExecution executionId w =
     sendMessage (Serialisable \<lparr>frame_type = ''cancel_execution'', frame_execution_id = Some executionId\<rparr>) w"

definition ping :: "world \<Rightarrow> js_error + world" where
  "ping w = sendMessage (Serialisable \<lparr>frame_type = ''ping'', frame_execution_id = None\<rparr>) w"

definition getStatus :: "world \<Rightarrow> js_error + world" where
  "getStatus w =
     sendMessage (Serialisable \<lparr>frame_type = ''get_status'', frame_execution_id = None\<rparr>) w"

definition disconnect :: "world \<Rightarrow> world" where
  "disconnect w =
     (case ws w of
        None \<Rightarrow> w
      | Some s \<Rightarrow>
          (sock_close s 1000 ''Client disconnect'' w)
            \<lparr>ws := None, connected := False, subscriptions := []\<rparr>)"

definition getSubscriptions :: "world \<Rightarrow> string list" where
  "getSubscriptions w = subscriptions w"

subsection \<open>Event handling\<close>

definition on :: "string \<Rightarrow> handler \<Rightarrow> world \<Rightarrow> world" where
  "on event h w =
     (let hs = (case eventHandlers w event of None \<Rightarrow> [] | Some hs \<Rightarrow> hs)
      in w\<lparr>eventHandlers := (eventHandlers w)(event \<mapsto> hs @ [h])\<rparr>)"

text \<open>\<^verbatim>\<open>indexOf\<close> finds the first occurrence and \<^verbatim>\<open>splice(index, 1)\<close> removes it, in place.\<close>

definition off :: "string \<Rightarrow> handler \<Rightarrow> world \<Rightarrow> world" where
  "off event h w =
     (case eventHandlers w event of
        None \<Rightarrow> w
      | Some hs \<Rightarrow>
          if h \<in> set hs then w\<lparr>eventHandlers := (eventHandlers w)(event \<mapsto> remove1 h hs)\<rparr>
          else w)"

text \<open>
  \<^verbatim>\<open>emit\<close>. \<^verbatim>\<open>handlers.forEach\<close> fixes the number of indices to visit before the first call
  and then visits index \<open>k\<close> only if the array, as it is by then, still has an element
  there; the array is the one stored in the map, which \<^verbatim>\<open>on\<close> and \<^verbatim>\<open>off\<close> change in place.
\<close>

definition resolve :: "nat \<Rightarrow> message option \<Rightarrow> world \<Rightarrow> world" where
  "resolve p v w =
     (case promises w p of
        None \<Rightarrow> w
      | Some pr \<Rightarrow>
          if pstate pr = Pending then w\<lparr>promises := (promises w)(p \<mapsto> pr\<lparr>pstate := Fulfilled v\<rparr>)\<rparr>
          else w)"

definition reject :: "nat \<Rightarrow> js_error \<Rightarrow> world \<Rightarrow> world" where
  "reject p e w =
     (case promises w p of
        None \<Rightarrow> w
      | Some pr \<Rightarrow>
          if pstate pr = Pending then w\<lparr>promises := (promises w)(p \<mapsto> pr\<lparr>pstate := Rejected e\<rparr>)\<rparr>
          else w)"

text \<open>
  The body of a handler called with a message: what it throws, if anything, and the
  state it leaves. In \<^verbatim>\<open>waitForCompletion\<close>, reading \<^verbatim>\<open>update.type\<close> of an absent
  \<^verbatim>\<open>data\<close> throws a \<^verbatim>\<open>TypeError\<close>.
\<close>

fun run_handler :: "handler \<Rightarrow> message \<Rightarrow> world \<Rightarrow> js_error option \<times> world" where
  "run_handler (Listener i) m w =
     (if listener_throws w i m then Some (ListenerError i) else None, w)"
| "run_handler (WaitForMessageHandler ty timeoutId p) m w =
     (None, resolve p (Some m) (off ty (WaitForMessageHandler ty timeoutId p) (clearTimeout timeoutId w)))"
| "run_handler (WaitForCompletionHandler executionId timeoutId p) m w =
     (if execution_id m = Some executionId then
        (case data m of
           None \<Rightarrow> (Some TypeError, w)
         | Some upd \<Rightarrow>
             if payload_type upd = Some ''completion'' then
               (None, resolve p (Some m)
                  (off ''execution_update'' (WaitForCompletionHandler executionId timeoutId p)
                     (clearTimeout timeoutId w)))
             else (None, w))
      else (None, w))"

text \<open>One turn of the \<^verbatim>\<open>forEach\<close> callback: the call inside \<^verbatim>\<open>try\<close>, the \<^verbatim>\<open>catch\<close> logging.\<close>

definition invoke :: "handler \<Rightarrow> message \<Rightarrow> world \<Rightarrow> world" where
  "invoke h m w =
     (case run_handler h m (w\<lparr>calls := calls w @ [(h, m)]\<rparr>) of
        (None, w') \<Rightarrow> w'
      | (Some e, w') \<Rightarrow> console_error ''Error in event handler:'' [Err e] w')"

definition visit :: "string \<Rightarrow> message \<Rightarrow> nat \<Rightarrow> world \<Rightarrow> world" where
  "visit event m k w =
     (case eventHandlers w event of
        None \<Rightarrow> w
      | Some hs \<Rightarrow> if k < length hs then invoke (hs ! k) m w else w)"

fun forEach_from :: "string \<Rightarrow> message \<Rightarrow> nat \<Rightarrow> nat \<Rightarrow> world \<Rightarrow> world" where
  "forEach_from event m k 0 w = w"
| "forEach_from event m k (Suc n) w = forEach_from event m (Suc k) n (visit event m k w)"

definition emit :: "string \<Rightarrow> message \<Rightarrow> world \<Rightarrow> world" where
  "emit event m w =
     (case eventHandlers w event of
        None \<Rightarrow> w
      | Some hs \<Rightarrow> forEach_from event m 0 (length hs) w)"

definition handleMessage :: "message \<Rightarrow> world \<Rightarrow> world" where
  "handleMessage m w = emit ''message'' m (emit (msg_type m) m w)"

subsection \<open>Connecting and reconnecting\<close>

text \<open>
  \<^verbatim>\<open>connect()\<close> called by \<open>a\<close>: a new promise, then the socket, unless the constructor
  throws, which the \<^verbatim>\<open>catch\<close> turns into a rejection. The promise is \<open>next_id w\<close>.
  A rejected \<^verbatim>\<open>connect()\<close> awaited by the reconnect timer's callback lands in that
  callback's \<^verbatim>\<open>catch\<close>.
\<close>

definition connect_rejected :: "nat \<Rightarrow> js_error \<Rightarrow> world \<Rightarrow> world" where
  "connect_rejected p e w =
     (case promises w p of
        None \<Rightarrow> w
      | Some pr \<Rightarrow>
          if pstate pr = Pending then
            (if awaited_by pr = ReconnectTask
             then console_error ''Reconnect failed:'' [Err e] (reject p e w)
             else reject p e w)
          else w)"

definition connect :: "awaiter \<Rightarrow> world \<Rightarrow> world" where
  "connect a w =
     (let p = next_id w;
          w1 = w\<lparr>promises := (promises w)(p \<mapsto> \<lparr>pstate = Pending, awaited_by = a\<rparr>),
                 next_id := Suc p\<rparr>
      in if url_valid w1 then
           w1\<lparr>ws := Some (Suc p),
               socks := (socks w1)(Suc p \<mapsto>
                 \<lparr>readyState = CONNECTING, sent = [], closeRequest = None, connectPromise = p\<rparr>),
               next_id := Suc (Suc p)\<rparr>
         else connect_rejected p SyntaxError w1)"

definition attemptReconnect :: "world \<Rightarrow> world" where
  "attemptReconnect w =
     (let w1 = w\<lparr>reconnectAttempts := Suc (reconnectAttempts w)\<rparr>;
          d = reconnectDelay * 2 ^ (reconnectAttempts w1 - 1);
          w2 = console_log ''Attempting to reconnect''
                 [Num (reconnectAttempts w1), Num maxReconnectAttempts, Num d] w1
      in setTimeout ReconnectCallback d w2)"

text \<open>
  The loop of the timer callback after \<^verbatim>\<open>await this.connect()\<close>:
  \<^verbatim>\<open>for (const executionId of this.subscriptions) await this.subscribe(executionId)\<close>,
  walking the live set by position.
\<close>

lemma sendMessage_subscriptions:
  "sendMessage v w = Inr w' \<Longrightarrow> subscriptions w' = subscriptions w"
  by (auto simp: sendMessage_def sock_send_def console_warn_def
           split: if_splits option.splits sum.splits ready_state.splits)

lemma subscribe_member:
  "subscribe x w = Inr w' \<Longrightarrow> x \<in> set (subscriptions w) \<Longrightarrow> subscriptions w' = subscriptions w"
  by (auto simp: subscribe_def set_add_def split: sum.splits dest: sendMessage_subscriptions)

function resubscribe_from :: "nat \<Rightarrow> world \<Rightarrow> js_error + world" where
  "resubscribe_from k w =
     (if k < length (subscriptions w) then
        (case subscribe (subscriptions w ! k) w of
           Inl e \<Rightarrow> Inl e
         | Inr w' \<Rightarrow> resubscribe_from (Suc k) w')
      else Inr w)"
  by pat_completeness auto
termination
proof (relation "measure (\<lambda>(k, w). length (subscriptions w) - k)")
  show "wf (measure (\<lambda>(k, w). length (subscriptions w) - k))"
    by simp
next
  fix k w w'
  assume k: "k < length (subscriptions w)"
    and s: "subscribe (subscriptions w ! k) w = Inr w'"
  from k have "subscriptions w ! k \<in> set (subscriptions w)"
    by simp
  with s have "subscriptions w' = subscriptions w"
    by (rule subscribe_member)
  with k show "((Suc k, w'), (k, w)) \<in> measure (\<lambda>(k, w). length (subscriptions w) - k)"
    by simp
qed

declare resubscribe_from.simps [simp del]

definition reconnect_task :: "world \<Rightarrow> world" where
  "reconnect_task w =
     (case resubscribe_from 0 w of
        Inl e \<Rightarrow> console_error ''Reconnect failed:'' [Err e] w
      | Inr w' \<Rightarrow> w')"

text \<open>
  \<^verbatim>\<open>resolve()\<close> in \<^verbatim>\<open>onopen\<close>: the promise of \<^verbatim>\<open>connect()\<close> is fulfilled if still pending,
  and the reconnect timer's callback, when it is the one awaiting, goes on to resubscribe.
\<close>

definition connect_resolved :: "nat \<Rightarrow> world \<Rightarrow> world" where
  "connect_resolved p w =
     (case promises w p of
        None \<Rightarrow> w
      | Some pr \<Rightarrow>
          if pstate pr = Pending then
            (if awaited_by pr = ReconnectTask then reconnect_task (resolve p None w)
             else resolve p None w)
          else w)"

text \<open>
  The data of an inbound event: text that \<^verbatim>\<open>JSON.parse\<close> rejects, the text \<^verbatim>\<open>null\<close>, or the
  encoding of a message. What \<^verbatim>\<open>JSON.parse\<close> returns is \<^verbatim>\<open>null\<close> (\<open>None\<close>) or the message.
\<close>

datatype wire = Malformed string | NullText | Encoded message

fun JSON_parse :: "wire \<Rightarrow> js_error + message option" where
  "JSON_parse (Malformed s) = Inl SyntaxError"
| "JSON_parse NullText = Inr None"
| "JSON_parse (Encoded m) = Inr (Some m)"

text \<open>
  The four handlers \<^verbatim>\<open>connect()\<close> installs on the socket whose promise is \<open>p\<close>. In
  \<^verbatim>\<open>onmessage\<close> the \<^verbatim>\<open>try\<close> also covers \<^verbatim>\<open>handleMessage\<close>: called with \<^verbatim>\<open>null\<close> it
  throws a \<^verbatim>\<open>TypeError\<close> on reading \<^verbatim>\<open>message.type\<close>, which the same \<^verbatim>\<open>catch\<close> logs; called
  with a message it throws nothing, since \<^verbatim>\<open>emit\<close> catches whatever a handler throws.
\<close>

definition ws_onopen :: "nat \<Rightarrow> world \<Rightarrow> world" where
  "ws_onopen p w =
     (let w1 = console_log ''WebSocket connected'' [] w;
          w2 = w1\<lparr>connected := True, reconnectAttempts := 0\<rparr>;
          w3 = emit ''connected''
                 \<lparr>msg_type = ''connected'', execution_id = None,
                  data = Some (ClientInfo (clientId w2)), timestamp = None, error = None\<rparr> w2
      in connect_resolved p w3)"

definition ws_onmessage :: "wire \<Rightarrow> world \<Rightarrow> world" where
  "ws_onmessage d w =
     (case JSON_parse d of
        Inl e \<Rightarrow> console_error ''Error parsing WebSocket message:'' [Err e] w
      | Inr None \<Rightarrow> console_error ''Error parsing WebSocket message:'' [Err TypeError] w
      | Inr (Some m) \<Rightarrow> handleMessage m w)"

definition ws_onclose :: "nat \<Rightarrow> string \<Rightarrow> world \<Rightarrow> world" where
  "ws_onclose code reason w =
     (let w1 = console_log ''WebSocket disconnected:'' [Num code, Str reason] w;
          w2 = w1\<lparr>connected := False\<rparr>;
          w3 = emit ''disconnected''
                 \<lparr>msg_type = ''disconnected'', execution_id = None,
                  data = Some (CloseInfo code reason), timestamp = None, error = None\<rparr> w2
      in if code \<noteq> 1000 \<and> reconnectAttempts w3 < maxReconnectAttempts
         then attemptReconnect w3 else w3)"

definition ws_onerror :: "nat \<Rightarrow> world \<Rightarrow> world" where
  "ws_onerror p w =
     (let w1 = console_error ''WebSocket error:'' [Err ErrorEvent] w;
          w2 = emit ''error''
                 \<lparr>msg_type = ''error'', execution_id = None, data = None, timestamp = None,
                  error = Some ''WebSocket connection error''\<rparr> w1
      in connect_rejected p ErrorEvent w2)"

subsection \<open>Utility methods\<close>

text \<open>
  Each returns the new promise, \<open>next_id w\<close>; the timeout's id is the next one. A missing
  \<open>timeout\<close> argument takes the declared default.
\<close>

definition waitForMessage :: "string \<Rightarrow> nat option \<Rightarrow> world \<Rightarrow> world" where
  "waitForMessage ty timeout w =
     (let p = next_id w;
          h = WaitForMessageHandler ty (Suc p) p;
          w1 = w\<lparr>promises := (promises w)(p \<mapsto> \<lparr>pstate = Pending, awaited_by = Caller\<rparr>),
                 next_id := Suc p\<rparr>;
          w2 = setTimeout (WaitForMessageTimeout ty h p)
                 (case timeout of None \<Rightarrow> 5000 | Some t \<Rightarrow> t) w1
      in on ty h w2)"

definition waitForCompletion :: "string \<Rightarrow> nat option \<Rightarrow> world \<Rightarrow> world" where
  "waitForCompletion executionId timeout w =
     (let p = next_id w;
          h = WaitForCompletionHandler executionId (Suc p) p;
          w1 = w\<lparr>promises := (promises w)(p \<mapsto> \<lparr>pstate = Pending, awaited_by = Caller\<rparr>),
                 next_id := Suc p\<rparr>;
          w2 = setTimeout (WaitForCompletionTimeout executionId h p)
                 (case timeout of None \<Rightarrow> 30000 | Some t \<Rightarrow> t) w1
      in on ''execution_update'' h w2)"

text \<open>A pending timer comes due: it leaves the pending list and its callback runs.\<close>

definition fire_timer :: "nat \<Rightarrow> world \<Rightarrow> world" where
  "fire_timer t w =
     (case find (\<lambda>x. timer_id x = t) (timers w) of
        None \<Rightarrow> w
      | Some tm \<Rightarrow>
          (let w1 = clearTimeout t w in
           case callback tm of
             ReconnectCallback \<Rightarrow> connect ReconnectTask w1
           | WaitForMessageTimeout ty h p \<Rightarrow>
               reject p (Error (''Timeout waiting for '' @ ty @ '' message'')) (off ty h w1)
           | WaitForCompletionTimeout executionId h p \<Rightarrow>
               reject p (Error (''Timeout waiting for execution '' @ executionId @ '' completion''))
                 (off ''execution_update'' h w1)))"

section \<open>Everything that can happen to a client\<close>

text \<open>
  The platform delivers a socket's open, message, close or error event, or a timer comes
  due; or a caller calls a public method. Before \<^verbatim>\<open>onopen\<close> the socket is open and
  before \<^verbatim>\<open>onclose\<close> it is closed. A rejected \<^verbatim>\<open>async\<close> call leaves the state it threw in.
\<close>

datatype event =
    SockOpen nat
  | SockMessage nat wire
  | SockClose nat nat string
  | SockError nat
  | TimerFire nat
  | CallConnect
  | CallDisconnect
  | CallSend js_value
  | CallSubscribe string
  | CallUnsubscribe string
  | CallCancelExecution string
  | CallPing
  | CallGetStatus
  | CallOn string nat
  | CallOff string nat
  | CallWaitForMessage string "nat option"
  | CallWaitForCompletion string "nat option"

definition set_readyState :: "nat \<Rightarrow> ready_state \<Rightarrow> world \<Rightarrow> world" where
  "set_readyState s r w =
     (case socks w s of
        None \<Rightarrow> w
      | Some sk \<Rightarrow> w\<lparr>socks := (socks w)(s \<mapsto> sk\<lparr>readyState := r\<rparr>)\<rparr>)"

definition settled :: "js_error + world \<Rightarrow> world \<Rightarrow> world" where
  "settled r w = (case r of Inl e \<Rightarrow> w | Inr w' \<Rightarrow> w')"

fun step :: "event \<Rightarrow> world \<Rightarrow> world" where
  "step (SockOpen s) w =
     (case socks w s of
        None \<Rightarrow> w
      | Some sk \<Rightarrow> ws_onopen (connectPromise sk) (set_readyState s OPEN w))"
| "step (SockMessage s d) w = ws_onmessage d w"
| "step (SockClose s code reason) w = ws_onclose code reason (set_readyState s CLOSED w)"
| "step (SockError s) w =
     (case socks w s of
        None \<Rightarrow> w
      | Some sk \<Rightarrow> ws_onerror (connectPromise sk) w)"
| "step (TimerFire t) w = fire_timer t w"
| "step CallConnect w = connect Caller w"
| "step CallDisconnect w = disconnect w"
| "step (CallSend f) w = settled (sendMessage f w) w"
| "step (CallSubscribe x) w = settled (subscribe x w) w"
| "step (CallUnsubscribe x) w = settled (unsubscribe x w) w"
| "step (CallCancelExecution x) w = settled (cancelExecution x w) w"
| "step CallPing w = settled (ping w) w"
| "step CallGetStatus w = settled (getStatus w) w"
| "step (CallOn e i) w = on e (Listener i) w"
| "step (CallOff e i) w = off e (Listener i) w"
| "step (CallWaitForMessage ty t) w = waitForMessage ty t w"
| "step (CallWaitForCompletion x t) w = waitForCompletion x t w"

fun run :: "event list \<Rightarrow> world \<Rightarrow> world" where
  "run [] w = w"
| "run (e # es) w = run es (step e w)"

text \<open>
  A socket's open event, and a close event whose code is not the clean-close code 1000.
\<close>

fun is_open :: "event \<Rightarrow> bool" where
  "is_open (SockOpen s) = True"
| "is_open e = False"

fun unexpected_close :: "event \<Rightarrow> bool" where
  "unexpected_close (SockClose s code reason) = (code \<noteq> 1000)"
| "unexpected_close e = False"

text \<open>
  What a dispatch leaves alone: of all the state, \<^verbatim>\<open>emit\<close> and the handlers it calls
  touch only the handler arrays, the pending timers, the promises, the console and the
  record of calls.
\<close>

definition same_client :: "world \<Rightarrow> world \<Rightarrow> bool" where
  "same_client w w' \<longleftrightarrow>
     ws w' = ws w \<and> clientId w' = clientId w \<and> connected w' = connected w \<and>
     reconnectAttempts w' = reconnectAttempts w \<and> subscriptions w' = subscriptions w \<and>
     url_valid w' = url_valid w \<and> socks w' = socks w \<and> scheduled w' = scheduled w \<and>
     listener_throws w' = listener_throws w \<and> next_id w' = next_id w"


definition caller_promise :: "world \<Rightarrow> nat \<Rightarrow> bool" where
  "caller_promise w p \<longleftrightarrow> (\<exists>pr. promises w p = Some pr \<and> awaited_by pr = Caller)"






definition reconnect_pending :: "world \<Rightarrow> nat \<Rightarrow> bool" where
  "reconnect_pending w p \<longleftrightarrow>
     promises w p = Some \<lparr>pstate = Pending, awaited_by = ReconnectTask\<rparr>"

text \<open>
  The handlers registered for an event, listeners among them, and the console entries
  \<^verbatim>\<open>emit\<close> writes when the listeners in a list are called with a message and throw.
\<close>

fun is_listener :: "handler \<Rightarrow> bool" where
  "is_listener (Listener i) = True"
| "is_listener h = False"

definition handlers_for :: "world \<Rightarrow> string \<Rightarrow> handler list" where
  "handlers_for w event = (case eventHandlers w event of None \<Rightarrow> [] | Some hs \<Rightarrow> hs)"

fun thrown_by :: "(nat \<Rightarrow> message \<Rightarrow> bool) \<Rightarrow> message \<Rightarrow> handler list \<Rightarrow> console_entry list" where
  "thrown_by thr m [] = []"
| "thrown_by thr m (Listener i # hs) =
     (if thr i m then [ConsoleError ''Error in event handler:'' [Err (ListenerError i)]] else [])
       @ thrown_by thr m hs"
| "thrown_by thr m (h # hs) = thrown_by thr m hs"

section \<open>The hook's update history (hooks/useWebSocket.ts)\<close>















section \<open>Concrete states used by the examples\<close>

definition client0 :: world where
  "client0 = new_client ''client-1'' True (\<lambda>i m. False)"

definition completion_of :: "string \<Rightarrow> message" where
  "completion_of j =
     \<lparr>msg_type = ''execution_update'', execution_id = Some j,
      data = Some (Update \<lparr>upd_type = ''completion'', upd_execution_id = j,
        upd_status = ''completed'', upd_progress = 100, upd_current_agent = None,
        upd_current_task = None, upd_output = None, upd_error = None\<rparr>),
      timestamp = None, error = None\<rparr>"

definition status_message :: message where
  "status_message =
     \<lparr>msg_type = ''status'', execution_id = None, data = None, timestamp = None, error = None\<rparr>"

definition two_waiters :: world where
  "two_waiters =
     run [CallConnect, SockOpen 1, CallWaitForCompletion ''J'' (Some 5000),
          CallWaitForCompletion ''J'' (Some 5000),
          SockMessage 1 (Encoded (completion_of ''J''))] client0"

definition waiter_then_listener :: world where
  "waiter_then_listener =
     run [CallConnect, SockOpen 1, CallWaitForMessage ''status'' None, CallOn ''status'' 7,
          CallOn ''message'' 8] client0"

definition subscribed_client :: world where
  "subscribed_client = run [CallConnect, SockOpen 1, CallSubscribe ''A''] client0"



definition two_listeners :: world where
  "two_listeners =
     run [CallOn ''message'' 1, CallOn ''message'' 2, CallOn ''status'' 3]
       (new_client ''client-1'' True (\<lambda>i m. i = 1))"

definition hooked_client :: world where
  "hooked_client =
     run [CallOn ''message'' 1, CallOn ''execution_update'' 2, CallConnect, SockOpen 1] client0"



text \<open>Unfolding these evaluates a run from a concrete state.\<close>

lemmas eval_defs =
  client0_def new_client_def settled_def subscribe_def unsubscribe_def sendMessage_def
  isConnected_def console_warn_def console_log_def console_error_def set_add_def set_delete_def
  sock_send_def sock_close_def setTimeout_def clearTimeout_def connect_def connect_rejected_def
  connect_resolved_def reconnect_task_def attemptReconnect_def ws_onopen_def ws_onclose_def
  ws_onerror_def ws_onmessage_def handleMessage_def emit_def visit_def invoke_def on_def off_def
  resolve_def reject_def fire_timer_def waitForMessage_def waitForCompletion_def
  set_readyState_def disconnect_def maxReconnectAttempts_def reconnectDelay_def Let_def
  resubscribe_from.simps completion_of_def

section \<open>Sending\<close>

lemma sendMessage_connected:
  assumes "isConnected w"
  shows "\<exists>s sk. ws w = Some s \<and> socks w s = Some sk \<and> readyState sk = OPEN \<and>
           sendMessage (Serialisable f) w =
             Inr (w\<lparr>socks := (socks w)(s \<mapsto> sk\<lparr>sent := sent sk @ [f]\<rparr>)\<rparr>)"
proof -
  from assms obtain s sk where s: "ws w = Some s" and sk: "socks w s = Some sk"
    and op: "readyState sk = OPEN"
    by (auto simp: isConnected_def split: option.splits)
  from assms s sk op
  have "sendMessage (Serialisable f) w =
          Inr (w\<lparr>socks := (socks w)(s \<mapsto> sk\<lparr>sent := sent sk @ [f]\<rparr>)\<rparr>)"
    by (simp add: sendMessage_def sock_send_def)
  with s sk op show ?thesis by blast
qed

lemma sendMessage_not_connected:
  "\<not> isConnected w \<Longrightarrow>
   sendMessage v w =
     Inr (w\<lparr>console := console w @
            [ConsoleWarn ''WebSocket not connected, cannot send message'' []]\<rparr>)"
  by (simp add: sendMessage_def console_warn_def)

lemma sendMessage_total: "\<exists>w'. sendMessage (Serialisable f) w = Inr w'"
  using sendMessage_connected [of w f] sendMessage_not_connected [of w "Serialisable f"]
  by (cases "isConnected w") auto

lemma sendMessage_unserialisable:
  "isConnected w \<Longrightarrow> sendMessage Unserialisable w = Inl TypeError"
  by (auto simp: sendMessage_def isConnected_def split: option.splits)

text \<open>
  C7, as the code has it. For a value \<^verbatim>\<open>JSON.stringify\<close> can serialise, \<^verbatim>\<open>sendMessage\<close>
  returns normally in every state: when \<^verbatim>\<open>isConnected()\<close> holds the frame is handed to the
  open socket at once (appended to what that socket was given to send) and nothing else
  changes; otherwise no socket changes and the only effect is one warning on the console.
  For a value \<^verbatim>\<open>JSON.stringify\<close> throws on, \<^verbatim>\<open>sendMessage\<close> throws that \<^verbatim>\<open>TypeError\<close> when
  connected, and only warns when not.
\<close>

theorem sendMessage_throws_only_unserialisable:
  "(\<exists>w'. sendMessage (Serialisable f) w = Inr w' \<and>
     (if isConnected w then
        \<exists>s sk. ws w = Some s \<and> socks w s = Some sk \<and> readyState sk = OPEN \<and>
          w' = w\<lparr>socks := (socks w)(s \<mapsto> sk\<lparr>sent := sent sk @ [f]\<rparr>)\<rparr>
      else socks w' = socks w \<and>
          w' = w\<lparr>console := console w @
                 [ConsoleWarn ''WebSocket not connected, cannot send message'' []]\<rparr>)) \<and>
   sendMessage Unserialisable w =
     (if isConnected w then Inl TypeError
      else Inr (w\<lparr>console := console w @
                  [ConsoleWarn ''WebSocket not connected, cannot send message'' []]\<rparr>))"
proof (cases "isConnected w")
  case True
  with sendMessage_connected [of w f] sendMessage_unserialisable [of w] show ?thesis by auto
next
  case False
  with sendMessage_not_connected [of w "Serialisable f"]
    sendMessage_not_connected [of w Unserialisable]
  show ?thesis by simp
qed

text \<open>
  Counterexample to C7 as stated: the client is connected and the value cannot be
  serialised. \<^verbatim>\<open>sendMessage\<close> throws.
\<close>

theorem send_unserialisable_throws:
  "isConnected subscribed_client \<and> sendMessage Unserialisable subscribed_client = Inl TypeError"
  by (simp add: subscribed_client_def eval_defs)

section \<open>The subscription set\<close>

text \<open>
  C9. For a job id that is not in the subscription set, \<^verbatim>\<open>unsubscribe\<close> returns normally
  (its promise is not rejected) and the set afterwards is the set before.
\<close>

theorem unsubscribe_absent:
  assumes "x \<notin> set (subscriptions w)"
  shows "\<exists>w'. unsubscribe x w = Inr w' \<and> subscriptions w' = subscriptions w"
proof -
  obtain w1 where
    w1: "sendMessage (Serialisable \<lparr>frame_type = ''unsubscribe'', frame_execution_id = Some x\<rparr>) w
           = Inr w1"
    using sendMessage_total by blast
  then have "subscriptions w1 = subscriptions w"
    by (rule sendMessage_subscriptions)
  with assms w1 show ?thesis
    by (simp add: unsubscribe_def set_delete_def)
qed

theorem unsubscribe_absent_witness:
  "''X'' \<notin> set (subscriptions (step (CallSubscribe ''A'') client0)) \<and>
   (\<exists>w'. unsubscribe ''X'' (step (CallSubscribe ''A'') client0) = Inr w' \<and>
      subscriptions w' = [''A''])"
proof -
  have s: "subscriptions (step (CallSubscribe ''A'') client0) = [''A'']"
    by (simp add: client0_def new_client_def settled_def subscribe_def sendMessage_def
          isConnected_def console_warn_def set_add_def)
  then have "''X'' \<notin> set (subscriptions (step (CallSubscribe ''A'') client0))"
    by simp
  with unsubscribe_absent [of "''X''" "step (CallSubscribe ''A'') client0"] s
  show ?thesis by simp
qed

section \<open>Disconnecting\<close>

text \<open>
  C10. With no socket ever created (\<open>ws\<close> is null) \<^verbatim>\<open>disconnect()\<close> changes nothing at
  all: the subscription set and the connected flag are as before. With a socket it clears
  the reference, the flag and the set.
\<close>

theorem disconnect_without_socket:
  "(ws w = None \<longrightarrow> disconnect w = w) \<and>
   (ws w \<noteq> None \<longrightarrow>
      ws (disconnect w) = None \<and> \<not> connected (disconnect w) \<and>
      subscriptions (disconnect w) = [])"
  by (auto simp: disconnect_def)

theorem disconnect_without_socket_witness:
  "ws (step (CallSubscribe ''A'') client0) = None \<and>
   subscriptions (step (CallSubscribe ''A'') client0) = [''A''] \<and>
   disconnect (step (CallSubscribe ''A'') client0) = step (CallSubscribe ''A'') client0 \<and>
   subscriptions (disconnect (step (CallSubscribe ''A'') client0)) = [''A'']"
proof -
  have s: "subscriptions (step (CallSubscribe ''A'') client0) = [''A'']"
    and n: "ws (step (CallSubscribe ''A'') client0) = None"
    by (simp_all add: client0_def new_client_def settled_def subscribe_def sendMessage_def
          isConnected_def console_warn_def set_add_def)
  with disconnect_without_socket [of "step (CallSubscribe ''A'') client0"]
  show ?thesis by simp
qed

section \<open>What a dispatch leaves alone\<close>

lemma same_client_refl: "same_client w w"
  by (simp add: same_client_def)

lemma same_client_trans: "same_client a b \<Longrightarrow> same_client b c \<Longrightarrow> same_client a c"
  by (simp add: same_client_def)

lemma off_same: "same_client w (off e h w)"
  by (simp add: same_client_def off_def split: option.splits)

lemma clearTimeout_same: "same_client w (clearTimeout t w)"
  by (simp add: same_client_def clearTimeout_def)

lemma resolve_same: "same_client w (resolve p v w)"
  by (simp add: same_client_def resolve_def split: option.splits)

lemma reject_same: "same_client w (reject p e w)"
  by (simp add: same_client_def reject_def split: option.splits)

lemma console_error_same: "same_client w (console_error s as w)"
  by (simp add: same_client_def console_error_def)

lemma waiter_body_same: "same_client w (resolve p v (off e h (clearTimeout t w)))"
  by (blast intro: same_client_trans clearTimeout_same off_same resolve_same)

lemma run_handler_same: "same_client w (snd (run_handler h m w))"
  by (cases h) (auto simp: same_client_refl waiter_body_same split: option.splits)

lemma invoke_same: "same_client w (invoke h m w)"
proof -
  let ?w0 = "w\<lparr>calls := calls w @ [(h, m)]\<rparr>"
  have a: "same_client w ?w0"
    by (simp add: same_client_def)
  have b: "same_client ?w0 (snd (run_handler h m ?w0))"
    by (rule run_handler_same)
  show ?thesis
  proof (cases "run_handler h m ?w0")
    case (Pair r w1)
    with a b have c: "same_client w w1"
      by (auto intro: same_client_trans)
    show ?thesis
    proof (cases r)
      case None
      with Pair c show ?thesis by (simp add: invoke_def)
    next
      case (Some e)
      with Pair c show ?thesis
        by (auto simp: invoke_def intro: same_client_trans console_error_same)
    qed
  qed
qed

lemma visit_same: "same_client w (visit e m k w)"
  by (simp add: visit_def same_client_refl invoke_same split: option.splits)

lemma forEach_from_same: "same_client w (forEach_from e m k n w)"
proof (induction n arbitrary: k w)
  case 0
  show ?case by (simp add: same_client_refl)
next
  case (Suc n)
  have "same_client w (visit e m k w)"
    by (rule visit_same)
  moreover have "same_client (visit e m k w) (forEach_from e m (Suc k) n (visit e m k w))"
    by (rule Suc.IH)
  ultimately show ?case
    by (auto intro: same_client_trans)
qed

lemma emit_same: "same_client w (emit e m w)"
  by (simp add: emit_def same_client_refl forEach_from_same split: option.splits)

lemma handleMessage_same: "same_client w (handleMessage m w)"
  unfolding handleMessage_def by (blast intro: same_client_trans emit_same)

section \<open>Reconnecting with backoff\<close>

lemma sendMessage_attempts:
  "sendMessage v w = Inr w' \<Longrightarrow> reconnectAttempts w' = reconnectAttempts w"
  by (auto simp: sendMessage_def sock_send_def console_warn_def
           split: if_splits option.splits sum.splits ready_state.splits)

lemma settled_attempts:
  "reconnectAttempts (settled (sendMessage f w) w) = reconnectAttempts w"
  "reconnectAttempts (settled (subscribe x w) w) = reconnectAttempts w"
  "reconnectAttempts (settled (unsubscribe x w) w) = reconnectAttempts w"
  "reconnectAttempts (settled (cancelExecution x w) w) = reconnectAttempts w"
  "reconnectAttempts (settled (ping w) w) = reconnectAttempts w"
  "reconnectAttempts (settled (getStatus w) w) = reconnectAttempts w"
  by (auto simp: settled_def subscribe_def unsubscribe_def cancelExecution_def ping_def
        getStatus_def split: sum.splits dest: sendMessage_attempts)

lemma connect_rejected_attempts:
  "reconnectAttempts (connect_rejected p e w) = reconnectAttempts w"
  by (simp add: connect_rejected_def reject_def console_error_def split: option.splits)

lemma connect_attempts: "reconnectAttempts (connect a w) = reconnectAttempts w"
  by (simp add: connect_def Let_def connect_rejected_attempts)

lemma disconnect_attempts: "reconnectAttempts (disconnect w) = reconnectAttempts w"
  by (simp add: disconnect_def sock_close_def split: option.splits)

lemma on_attempts: "reconnectAttempts (on e h w) = reconnectAttempts w"
  by (simp add: on_def Let_def)

lemma off_attempts: "reconnectAttempts (off e h w) = reconnectAttempts w"
  using off_same [of w e h] by (simp add: same_client_def)

lemma waitFor_attempts:
  "reconnectAttempts (waitForMessage ty t w) = reconnectAttempts w"
  "reconnectAttempts (waitForCompletion x t w) = reconnectAttempts w"
  by (simp_all add: waitForMessage_def waitForCompletion_def Let_def on_attempts setTimeout_def)

lemma fire_timer_attempts: "reconnectAttempts (fire_timer t w) = reconnectAttempts w"
  by (simp add: fire_timer_def Let_def connect_attempts reject_def off_attempts clearTimeout_def
        split: option.splits timer_callback.splits)

lemma emit_attempts: "reconnectAttempts (emit e m w) = reconnectAttempts w"
  using emit_same [of w e m] by (simp add: same_client_def)

lemma ws_onmessage_attempts: "reconnectAttempts (ws_onmessage d w) = reconnectAttempts w"
  by (simp add: ws_onmessage_def handleMessage_def emit_attempts console_error_def
        split: sum.splits option.splits)

lemma ws_onerror_attempts: "reconnectAttempts (ws_onerror p w) = reconnectAttempts w"
  by (simp add: ws_onerror_def Let_def connect_rejected_attempts emit_attempts console_error_def)

lemma set_readyState_fields:
  "reconnectAttempts (set_readyState s r w) = reconnectAttempts w"
  "scheduled (set_readyState s r w) = scheduled w"
  "next_id (set_readyState s r w) = next_id w"
  by (simp_all add: set_readyState_def split: option.splits)

text \<open>What one close event adds to the timers ever scheduled, and does to the counter.\<close>

lemma emit_fields:
  "scheduled (emit e m w) = scheduled w"
  "next_id (emit e m w) = next_id w"
  "socks (emit e m w) = socks w"
  "ws (emit e m w) = ws w"
  "connected (emit e m w) = connected w"
  "subscriptions (emit e m w) = subscriptions w"
  using emit_same [of w e m] by (simp_all add: same_client_def)

lemma ws_onclose_scheduled:
  "scheduled (ws_onclose code reason w) =
     scheduled w @
       (if code \<noteq> 1000 \<and> reconnectAttempts w < maxReconnectAttempts
        then [\<lparr>timer_id = next_id w, delay = reconnectDelay * 2 ^ reconnectAttempts w,
               callback = ReconnectCallback\<rparr>]
        else [])"
  by (simp add: ws_onclose_def Let_def attemptReconnect_def setTimeout_def console_log_def
        emit_fields emit_attempts)

lemma ws_onclose_attempts:
  "reconnectAttempts (ws_onclose code reason w) =
     (if code \<noteq> 1000 \<and> reconnectAttempts w < maxReconnectAttempts
      then Suc (reconnectAttempts w) else reconnectAttempts w)"
  by (simp add: ws_onclose_def Let_def attemptReconnect_def setTimeout_def console_log_def
        emit_attempts)

lemma step_attempts:
  "\<not> is_open e \<Longrightarrow>
   reconnectAttempts (step e w) =
     (if unexpected_close e \<and> reconnectAttempts w < maxReconnectAttempts
      then Suc (reconnectAttempts w) else reconnectAttempts w)"
  by (cases e)
     (simp_all add: settled_attempts connect_attempts disconnect_attempts on_attempts
        off_attempts waitFor_attempts fire_timer_attempts ws_onmessage_attempts
        ws_onerror_attempts ws_onclose_attempts set_readyState_fields split: option.splits)

lemma run_attempts:
  "\<forall>e \<in> set es. \<not> is_open e \<Longrightarrow> reconnectAttempts w \<le> maxReconnectAttempts \<Longrightarrow>
   reconnectAttempts (run es w) =
     min maxReconnectAttempts (reconnectAttempts w + length (filter unexpected_close es))"
proof (induction es arbitrary: w)
  case Nil
  then show ?case by simp
next
  case (Cons e es)
  from Cons.prems have e: "\<not> is_open e" and es: "\<forall>e \<in> set es. \<not> is_open e"
    by simp_all
  have le: "reconnectAttempts (step e w) \<le> maxReconnectAttempts"
    using Cons.prems(2) by (simp add: step_attempts [OF e])
  show ?case
    using Cons.IH [OF es le] Cons.prems(2)
    by (auto simp: step_attempts [OF e])
qed

text \<open>
  C1. Start where the attempt counter is zero, as a successful open leaves it, and let
  anything happen except an open; let \<open>k - 1\<close> unexpected closes (code other than 1000)
  be among it. Then the next unexpected close, the \<open>k\<close>-th in a row, asks for exactly one
  timer, the reconnect with delay \<open>1000 * 2 ^ (k - 1)\<close> ms, when \<open>k \<le> 5\<close>, and for no
  timer at all from the sixth on.
\<close>

theorem reconnect_backoff:
  assumes "reconnectAttempts w = 0"
    and "\<forall>e \<in> set es. \<not> is_open e"
    and "Suc (length (filter unexpected_close es)) = k"
    and "code \<noteq> 1000"
  shows "scheduled (step (SockClose s code reason) (run es w)) =
           scheduled (run es w) @
             (if k \<le> 5
              then [\<lparr>timer_id = next_id (run es w), delay = 1000 * 2 ^ (k - 1),
                     callback = ReconnectCallback\<rparr>]
              else [])"
proof -
  have "reconnectAttempts (run es w) = min maxReconnectAttempts (k - 1)"
    using run_attempts [OF assms(2), of w] assms(1,3) by auto
  then show ?thesis
    using assms(3,4)
    by (auto simp: ws_onclose_scheduled set_readyState_fields maxReconnectAttempts_def
          reconnectDelay_def min_def)
qed

theorem reconnect_backoff_witness:
  "reconnectAttempts client0 = 0 \<and>
   scheduled (run [CallConnect, SockClose 1 1006 [], TimerFire 2, SockError 4,
                   SockClose 4 1006 []] client0) =
     [\<lparr>timer_id = 2, delay = 1000, callback = ReconnectCallback\<rparr>,
      \<lparr>timer_id = 5, delay = 2000, callback = ReconnectCallback\<rparr>]"
proof -
  let ?es = "[CallConnect, SockClose 1 1006 [], TimerFire 2, SockError 4]"
  have a: "reconnectAttempts client0 = 0"
    by (simp add: client0_def new_client_def)
  have b: "\<forall>e \<in> set ?es. \<not> is_open e"
    by simp
  have c: "Suc (length (filter unexpected_close ?es)) = 2"
    by simp
  have d: "(1006::nat) \<noteq> 1000"
    by simp
  have e: "scheduled (run ?es client0) = [\<lparr>timer_id = 2, delay = 1000, callback = ReconnectCallback\<rparr>]"
    "next_id (run ?es client0) = 5"
    by (simp_all add: eval_defs)
  from reconnect_backoff [OF a b c d, of 4 "[]"] e a
  show ?thesis by simp
qed

section \<open>Close events after disconnect\<close>

lemma step_clean_close_scheduled:
  "scheduled (step (SockClose s 1000 reason) w) = scheduled w"
  by (simp add: ws_onclose_scheduled set_readyState_fields)

text \<open>
  C8, as the code has it. \<^verbatim>\<open>disconnect()\<close> on a connecting or open socket asks it to close
  with code 1000 and reason "Client disconnect", drops the reference, clears the flag and
  the subscription set. Whatever happens next, a close event that carries code 1000 asks
  for no timer. (The handler reads only the event's code: see the counterexample for a
  close event carrying another code.)
\<close>

theorem clean_close_after_disconnect:
  assumes "ws w = Some s" and "socks w s = Some sk"
    and "readyState sk = CONNECTING \<or> readyState sk = OPEN"
  shows "socks (disconnect w) s =
           Some (sk\<lparr>readyState := CLOSING, closeRequest := Some (1000, ''Client disconnect'')\<rparr>) \<and>
         ws (disconnect w) = None \<and> \<not> connected (disconnect w) \<and>
         subscriptions (disconnect w) = [] \<and>
         scheduled (step (SockClose s 1000 reason) (run es (disconnect w))) =
           scheduled (run es (disconnect w))"
proof -
  have "scheduled (step (SockClose s 1000 reason) (run es (disconnect w))) =
          scheduled (run es (disconnect w))"
    by (rule step_clean_close_scheduled)
  moreover have "socks (disconnect w) s =
      Some (sk\<lparr>readyState := CLOSING, closeRequest := Some (1000, ''Client disconnect'')\<rparr>)"
    using assms by (auto simp: disconnect_def sock_close_def)
  moreover have "ws (disconnect w) = None \<and> \<not> connected (disconnect w) \<and>
      subscriptions (disconnect w) = []"
    using assms(1) by (simp add: disconnect_def)
  ultimately show ?thesis by blast
qed

theorem clean_close_after_disconnect_witness:
  "ws subscribed_client = Some 1 \<and> subscriptions subscribed_client = [''A''] \<and>
   connected subscribed_client \<and>
   socks (disconnect subscribed_client) 1 =
     Some \<lparr>readyState = CLOSING, sent = [\<lparr>frame_type = ''subscribe'', frame_execution_id = Some ''A''\<rparr>],
           closeRequest = Some (1000, ''Client disconnect''), connectPromise = 0\<rparr> \<and>
   subscriptions (disconnect subscribed_client) = [] \<and>
   scheduled (step (SockClose 1 1000 []) (run [] (disconnect subscribed_client))) =
     scheduled (run [] (disconnect subscribed_client))"
proof -
  have a: "ws subscribed_client = Some 1"
    and b: "socks subscribed_client 1 =
      Some \<lparr>readyState = OPEN, sent = [\<lparr>frame_type = ''subscribe'', frame_execution_id = Some ''A''\<rparr>],
            closeRequest = None, connectPromise = 0\<rparr>"
    and c: "subscriptions subscribed_client = [''A'']" "connected subscribed_client"
    by (simp_all add: subscribed_client_def eval_defs)
  from clean_close_after_disconnect [OF a b, of "[]" "[]"] a c
  show ?thesis by simp
qed

text \<open>
  Counterexample to C8 as stated: connect, open, subscribe, disconnect; then the socket's
  close event arrives carrying 1006. A reconnect is scheduled, 1000 ms ahead.
\<close>

theorem abnormal_close_after_disconnect_reconnects:
  "scheduled (step CallDisconnect subscribed_client) = [] \<and>
   scheduled (step (SockClose 1 1006 []) (step CallDisconnect subscribed_client)) =
     [\<lparr>timer_id = 2, delay = 1000, callback = ReconnectCallback\<rparr>]"
  by (simp add: subscribed_client_def eval_defs)

section \<open>Inbound frames\<close>

text \<open>
  C4, as the code has it. A frame that \<^verbatim>\<open>JSON.parse\<close> rejects changes nothing but the
  console, which gets one \<^verbatim>\<open>console.error\<close> entry: no handler is called, no socket
  changes, the frame is gone.
\<close>

theorem parse_failure_logged:
  "step (SockMessage s (Malformed t)) w =
     w\<lparr>console := console w @
          [ConsoleError ''Error parsing WebSocket message:'' [Err SyntaxError]]\<rparr>"
  by (simp add: ws_onmessage_def console_error_def)

text \<open>
  Counterexample to C4 as stated: a listener is registered for \<^verbatim>\<open>error\<close>, the socket is
  open, a malformed frame arrives. No handler has been called: no \<^verbatim>\<open>error\<close> event was
  emitted.
\<close>

theorem parse_failure_no_error_event:
  "eventHandlers (run [CallOn ''error'' 1, CallConnect, SockOpen 1] client0) ''error'' =
     Some [Listener 1] \<and>
   calls (run [CallOn ''error'' 1, CallConnect, SockOpen 1,
               SockMessage 1 (Malformed ''{'')] client0) = []"
  by (simp add: eval_defs)

section \<open>Handlers that deregister themselves while being dispatched\<close>

text \<open>
  C5 at a failing input. \<^verbatim>\<open>waitForMessage("status")\<close> and then a listener are registered
  for \<^verbatim>\<open>status\<close>, another listener for \<^verbatim>\<open>message\<close>. A \<^verbatim>\<open>status\<close> message arrives. The
  waiter's handler runs and splices itself out of the array \<^verbatim>\<open>forEach\<close> is walking, the
  listener moves to index 0, and index 1 is empty when \<^verbatim>\<open>forEach\<close> gets there: listener 7,
  registered for this dispatch, is not called. The dispatch under \<^verbatim>\<open>message\<close> follows.
\<close>

theorem listener_after_waiter_skipped:
  "eventHandlers waiter_then_listener ''status'' =
     Some [WaitForMessageHandler ''status'' 3 2, Listener 7] \<and>
   calls waiter_then_listener = [] \<and>
   calls (step (SockMessage 1 (Encoded status_message)) waiter_then_listener) =
     [(WaitForMessageHandler ''status'' 3 2, status_message), (Listener 8, status_message)]"
  by (simp add: waiter_then_listener_def status_message_def eval_defs)

text \<open>
  C3 at a failing input. Two calls of \<^verbatim>\<open>waitForCompletion("J", 5000)\<close>, then the completion
  update for J arrives. The first promise is fulfilled with it; the second handler is
  skipped by the same \<^verbatim>\<open>forEach\<close>, stays registered, its promise stays pending, and when
  its timer comes due the promise is rejected with the timeout error.
\<close>

theorem second_waiter_not_resolved:
  "map_option pstate (promises two_waiters 2) = Some (Fulfilled (Some (completion_of ''J''))) \<and>
   map_option pstate (promises two_waiters 4) = Some Pending \<and>
   eventHandlers two_waiters ''execution_update'' = Some [WaitForCompletionHandler ''J'' 5 4] \<and>
   calls two_waiters = [(WaitForCompletionHandler ''J'' 3 2, completion_of ''J'')] \<and>
   map_option pstate (promises (step (TimerFire 5) two_waiters) 4) =
     Some (Rejected (Error ''Timeout waiting for execution J completion''))"
  by (simp add: two_waiters_def eval_defs)

section \<open>The invariant of reachable states\<close>


lemma caller_promise_cong:
  "promises w' = promises w \<Longrightarrow> caller_promise w' p = caller_promise w p"
  by (simp add: caller_promise_def)











lemma reject_fields:
  "eventHandlers (reject p e w) = eventHandlers w"
  "subscriptions (reject p e w) = subscriptions w"
  "socks (reject p e w) = socks w"
  "next_id (reject p e w) = next_id w"
  by (simp_all add: reject_def split: option.splits)




lemma off_fields:
  "subscriptions (off e h w) = subscriptions w"
  "socks (off e h w) = socks w"
  "promises (off e h w) = promises w"
  "next_id (off e h w) = next_id w"
  by (simp_all add: off_def split: option.splits)









































section \<open>Resubscribing after a reconnect\<close>

lemma reconnect_pending_cong:
  "promises w' = promises w \<Longrightarrow> reconnect_pending w' p = reconnect_pending w p"
  by (simp add: reconnect_pending_def)


















section \<open>Dispatch to listeners\<close>

lemma thrown_by_append:
  "thrown_by thr m (xs @ ys) = thrown_by thr m xs @ thrown_by thr m ys"
  by (induction thr m xs rule: thrown_by.induct) simp_all

lemma invoke_listener:
  "invoke (Listener i) m w =
     w\<lparr>calls := calls w @ [(Listener i, m)],
       console := console w @ thrown_by (listener_throws w) m [Listener i]\<rparr>"
  by (simp add: invoke_def console_error_def)

lemma forEach_from_listeners:
  "eventHandlers w e = Some hs \<Longrightarrow> k + n \<le> length hs \<Longrightarrow>
   list_all is_listener (take n (drop k hs)) \<Longrightarrow>
   forEach_from e m k n w =
     w\<lparr>calls := calls w @ map (\<lambda>h. (h, m)) (take n (drop k hs)),
       console := console w @ thrown_by (listener_throws w) m (take n (drop k hs))\<rparr>"
proof (induction n arbitrary: k w)
  case 0
  then show ?case by simp
next
  case (Suc n)
  from Suc.prems(2) have k: "k < length hs" by simp
  then have d: "drop k hs = hs ! k # drop (Suc k) hs"
    by (simp add: Cons_nth_drop_Suc)
  with Suc.prems(3) obtain i where i: "hs ! k = Listener i"
    by (cases "hs ! k") simp_all
  let ?w1 = "w\<lparr>calls := calls w @ [(Listener i, m)],
       console := console w @ thrown_by (listener_throws w) m [Listener i]\<rparr>"
  have v: "visit e m k w = ?w1"
    using Suc.prems(1) k i by (simp add: visit_def invoke_listener)
  have e1: "eventHandlers ?w1 e = Some hs"
    using Suc.prems(1) by simp
  have l1: "list_all is_listener (take n (drop (Suc k) hs))"
    using Suc.prems(3) d by simp
  have n1: "Suc k + n \<le> length hs"
    using Suc.prems(2) by simp
  from Suc.IH [OF e1 n1 l1] v d i show ?case
    by simp
qed

lemma emit_listeners:
  assumes "list_all is_listener (handlers_for w e)"
  shows "emit e m w =
     w\<lparr>calls := calls w @ map (\<lambda>h. (h, m)) (handlers_for w e),
       console := console w @ thrown_by (listener_throws w) m (handlers_for w e)\<rparr>"
proof (cases "eventHandlers w e")
  case None
  then show ?thesis by (simp add: emit_def handlers_for_def)
next
  case (Some hs)
  with assms have "list_all is_listener (take (length hs) (drop 0 hs))"
    by (simp add: handlers_for_def)
  from forEach_from_listeners [OF Some _ this, of m] Some show ?thesis
    by (simp add: emit_def handlers_for_def)
qed

text \<open>
  What the dispatch does guarantee. When the handlers registered for the message's type and for
  \<^verbatim>\<open>message\<close> are all listeners, an inbound message is dispatched twice, first to every
  handler of its type and then to every handler of \<^verbatim>\<open>message\<close>, each list in registration
  order and each call with the same message; a listener that throws costs one console
  entry and nothing else: every handler after it is still called, and no other part of the
  state changes.
\<close>

theorem listener_isolation:
  assumes "list_all is_listener (handlers_for w (msg_type m))"
    and "list_all is_listener (handlers_for w ''message'')"
  shows "step (SockMessage s (Encoded m)) w =
     w\<lparr>calls := calls w @
          map (\<lambda>h. (h, m)) (handlers_for w (msg_type m) @ handlers_for w ''message''),
       console := console w @
          thrown_by (listener_throws w) m (handlers_for w (msg_type m) @ handlers_for w ''message'')\<rparr>"
proof -
  let ?w1 = "emit (msg_type m) m w"
  have w1: "?w1 = w\<lparr>calls := calls w @ map (\<lambda>h. (h, m)) (handlers_for w (msg_type m)),
       console := console w @ thrown_by (listener_throws w) m (handlers_for w (msg_type m))\<rparr>"
    using assms(1) by (rule emit_listeners)
  then have h1: "handlers_for ?w1 ''message'' = handlers_for w ''message''"
    by (simp add: handlers_for_def)
  with assms(2) have "list_all is_listener (handlers_for ?w1 ''message'')"
    by simp
  from emit_listeners [OF this, of m] h1 w1 show ?thesis
    by (simp add: ws_onmessage_def handleMessage_def thrown_by_append)
qed

theorem listener_isolation_witness:
  "handlers_for two_listeners ''message'' = [Listener 1, Listener 2] \<and>
   calls (step (SockMessage 0 (Encoded status_message)) two_listeners) =
     [(Listener 3, status_message), (Listener 1, status_message), (Listener 2, status_message)] \<and>
   console (step (SockMessage 0 (Encoded status_message)) two_listeners) =
     [ConsoleError ''Error in event handler:'' [Err (ListenerError 1)]]"
proof -
  have a: "handlers_for two_listeners ''message'' = [Listener 1, Listener 2]"
    and b: "handlers_for two_listeners (msg_type status_message) = [Listener 3]"
    and c: "calls two_listeners = []" "console two_listeners = []"
      "listener_throws two_listeners = (\<lambda>i m. i = 1)"
    by (simp_all add: two_listeners_def handlers_for_def status_message_def new_client_def on_def)
  have "list_all is_listener (handlers_for two_listeners (msg_type status_message))"
    and "list_all is_listener (handlers_for two_listeners ''message'')"
    using a b by simp_all
  from listener_isolation [OF this, of 0] a b c show ?thesis
    by simp
qed

section \<open>One waiter among listeners\<close>

lemma forEach_from_split:
  "forEach_from e m k (a + b) w = forEach_from e m (k + a) b (forEach_from e m k a w)"
  by (induction a arbitrary: k w) simp_all

lemma find_append_None:
  "find P xs = None \<Longrightarrow> find P (xs @ ys) = find P ys"
  by (induction xs) (auto split: if_splits)

lemma is_listener_not_waiter:
  "list_all is_listener hs \<Longrightarrow> WaitForCompletionHandler j t p \<notin> set hs"
  by (induction hs) auto

text \<open>The state right after \<^verbatim>\<open>waitForCompletion\<close>.\<close>

lemma waitForCompletion_state:
  "eventHandlers (waitForCompletion j timeout w) ''execution_update'' =
     Some (handlers_for w ''execution_update'' @
       [WaitForCompletionHandler j (Suc (next_id w)) (next_id w)])"
  "e \<noteq> ''execution_update'' \<Longrightarrow> eventHandlers (waitForCompletion j timeout w) e = eventHandlers w e"
  "promises (waitForCompletion j timeout w) (next_id w) =
     Some \<lparr>pstate = Pending, awaited_by = Caller\<rparr>"
  "timers (waitForCompletion j timeout w) = timers w @
     [\<lparr>timer_id = Suc (next_id w), delay = (case timeout of None \<Rightarrow> 30000 | Some t \<Rightarrow> t),
       callback = WaitForCompletionTimeout j
         (WaitForCompletionHandler j (Suc (next_id w)) (next_id w)) (next_id w)\<rparr>]"
  "listener_throws (waitForCompletion j timeout w) = listener_throws w"
  by (simp_all add: waitForCompletion_def Let_def on_def setTimeout_def
        handlers_for_def split: option.splits)

text \<open>
  Dispatching \<^verbatim>\<open>execution_update\<close> when listeners are followed by the waiter's handler:
  the listeners run, then the handler.
\<close>

lemma emit_listeners_then_waiter:
  assumes "eventHandlers w ''execution_update'' = Some (hs @ [h])" and "list_all is_listener hs"
  shows "emit ''execution_update'' m w =
           invoke h m
             (w\<lparr>calls := calls w @ map (\<lambda>h. (h, m)) hs,
                console := console w @ thrown_by (listener_throws w) m hs\<rparr>)"
proof -
  let ?e = "''execution_update''"
  let ?w2 = "w\<lparr>calls := calls w @ map (\<lambda>h. (h, m)) hs,
                console := console w @ thrown_by (listener_throws w) m hs\<rparr>"
  have "list_all is_listener (take (length hs) (drop 0 (hs @ [h])))"
    using assms(2) by simp
  from forEach_from_listeners [OF assms(1) _ this, of m]
  have a: "forEach_from ?e m 0 (length hs) w = ?w2"
    by simp
  have b: "forEach_from ?e m (length hs) (Suc 0) ?w2 = invoke h m ?w2"
    using assms(1) by (simp add: visit_def)
  have "emit ?e m w = forEach_from ?e m 0 (length hs + Suc 0) w"
    using assms(1) by (simp add: emit_def)
  also have "\<dots> = forEach_from ?e m (0 + length hs) (Suc 0) (forEach_from ?e m 0 (length hs) w)"
    by (rule forEach_from_split)
  finally show ?thesis
    using a b by simp
qed

text \<open>
  What one waiter is guaranteed, in three theorems, when the handlers already registered
  for \<^verbatim>\<open>execution_update\<close> and \<^verbatim>\<open>message\<close> are listeners. First: a completion update for the
  awaited job fulfils the promise with that very message, deregisters the handler and
  clears the timeout.
\<close>

theorem waiter_resolves_on_completion:
  assumes "list_all is_listener (handlers_for w ''execution_update'')"
    and "list_all is_listener (handlers_for w ''message'')"
    and "msg_type m = ''execution_update''" and "execution_id m = Some j"
    and "data m = Some d" and "payload_type d = Some ''completion''"
  shows "promises (step (SockMessage s (Encoded m)) (waitForCompletion j timeout w)) (next_id w) =
           Some \<lparr>pstate = Fulfilled (Some m), awaited_by = Caller\<rparr> \<and>
         handlers_for (step (SockMessage s (Encoded m)) (waitForCompletion j timeout w))
           ''execution_update'' = handlers_for w ''execution_update'' \<and>
         filter (\<lambda>x. timer_id x = Suc (next_id w))
           (timers (step (SockMessage s (Encoded m)) (waitForCompletion j timeout w))) = []"
proof -
  let ?e = "''execution_update''"
  let ?w1 = "waitForCompletion j timeout w"
  let ?p = "next_id w"
  let ?h = "WaitForCompletionHandler j (Suc ?p) ?p"
  let ?hs = "handlers_for w ?e"
  note st = waitForCompletion_state [where j = j and timeout = timeout and w = w]
  let ?w2 = "?w1\<lparr>calls := calls ?w1 @ map (\<lambda>h. (h, m)) ?hs,
                console := console ?w1 @ thrown_by (listener_throws ?w1) m ?hs\<rparr>"
  let ?w3 = "invoke ?h m ?w2"
  have e3: "emit ?e m ?w1 = ?w3"
    using st(1) assms(1) by (rule emit_listeners_then_waiter)
  have notin: "?h \<notin> set ?hs"
    using assms(1) by (rule is_listener_not_waiter)
  have w3: "?w3 = resolve ?p (Some m) (off ?e ?h (clearTimeout (Suc ?p)
              (?w2\<lparr>calls := calls ?w2 @ [(?h, m)]\<rparr>)))"
    using assms(4,5,6) by (simp add: invoke_def)
  have p3: "promises ?w3 ?p = Some \<lparr>pstate = Fulfilled (Some m), awaited_by = Caller\<rparr>"
    using st(3) by (simp add: w3 resolve_def off_def clearTimeout_def st(1))
  have h3: "eventHandlers ?w3 ?e = Some ?hs"
    using st(1) notin by (simp add: w3 resolve_def off_def clearTimeout_def p3 st(3) remove1_append)
  have h3m: "eventHandlers ?w3 ''message'' = eventHandlers w ''message''"
    using st(2) [of "''message''"] st(1)
    by (simp add: w3 resolve_def off_def clearTimeout_def st(3))
  have t3: "filter (\<lambda>x. timer_id x = Suc ?p) (timers ?w3) = []"
    by (simp add: w3 resolve_def off_def clearTimeout_def st(1) st(3) filter_empty_conv)
  have l3: "list_all is_listener (handlers_for ?w3 ''message'')"
    using assms(2) h3m by (simp add: handlers_for_def)
  let ?w4 = "emit ''message'' m ?w3"
  have w4: "?w4 = ?w3\<lparr>calls := calls ?w3 @ map (\<lambda>h. (h, m)) (handlers_for ?w3 ''message''),
       console := console ?w3 @ thrown_by (listener_throws ?w3) m (handlers_for ?w3 ''message'')\<rparr>"
    using l3 by (rule emit_listeners)
  have "step (SockMessage s (Encoded m)) ?w1 = ?w4"
    using assms(3) e3 by (simp add: ws_onmessage_def handleMessage_def)
  moreover have "promises ?w4 ?p = promises ?w3 ?p" "eventHandlers ?w4 ?e = eventHandlers ?w3 ?e"
    "timers ?w4 = timers ?w3"
    by (simp_all add: w4)
  ultimately show ?thesis
    using p3 h3 t3 by (simp add: handlers_for_def)
qed

theorem waiter_resolves_on_completion_witness:
  "handlers_for hooked_client ''execution_update'' = [Listener 2] \<and>
   handlers_for hooked_client ''message'' = [Listener 1] \<and> next_id hooked_client = 2 \<and>
   promises (step (SockMessage 1 (Encoded (completion_of ''J'')))
              (waitForCompletion ''J'' None hooked_client)) 2 =
     Some \<lparr>pstate = Fulfilled (Some (completion_of ''J'')), awaited_by = Caller\<rparr> \<and>
   handlers_for (step (SockMessage 1 (Encoded (completion_of ''J'')))
              (waitForCompletion ''J'' None hooked_client)) ''execution_update'' = [Listener 2]"
proof -
  have a: "handlers_for hooked_client ''execution_update'' = [Listener 2]"
    and b: "handlers_for hooked_client ''message'' = [Listener 1]"
    and n: "next_id hooked_client = 2"
    by (simp_all add: hooked_client_def handlers_for_def eval_defs)
  have la: "list_all is_listener (handlers_for hooked_client ''execution_update'')"
    and lb: "list_all is_listener (handlers_for hooked_client ''message'')"
    using a b by simp_all
  have m: "msg_type (completion_of ''J'') = ''execution_update''"
    "execution_id (completion_of ''J'') = Some ''J''"
    "data (completion_of ''J'') = Some (Update \<lparr>upd_type = ''completion'', upd_execution_id = ''J'',
        upd_status = ''completed'', upd_progress = 100, upd_current_agent = None,
        upd_current_task = None, upd_output = None, upd_error = None\<rparr>)"
    by (simp_all add: completion_of_def)
  from waiter_resolves_on_completion [OF la lb m, of 1 None] a b n
  show ?thesis by simp
qed

text \<open>
  Second: an update carrying another job id, terminal or not, leaves the promise pending
  and the handler registered.
\<close>

theorem waiter_ignores_other_job:
  assumes "list_all is_listener (handlers_for w ''execution_update'')"
    and "list_all is_listener (handlers_for w ''message'')"
    and "msg_type m = ''execution_update''" and "execution_id m \<noteq> Some j"
  shows "promises (step (SockMessage s (Encoded m)) (waitForCompletion j timeout w)) (next_id w) =
           Some \<lparr>pstate = Pending, awaited_by = Caller\<rparr> \<and>
         handlers_for (step (SockMessage s (Encoded m)) (waitForCompletion j timeout w))
           ''execution_update'' =
           handlers_for w ''execution_update'' @
             [WaitForCompletionHandler j (Suc (next_id w)) (next_id w)]"
proof -
  let ?e = "''execution_update''"
  let ?w1 = "waitForCompletion j timeout w"
  let ?p = "next_id w"
  let ?h = "WaitForCompletionHandler j (Suc ?p) ?p"
  let ?hs = "handlers_for w ?e"
  note st = waitForCompletion_state [where j = j and timeout = timeout and w = w]
  let ?w2 = "?w1\<lparr>calls := calls ?w1 @ map (\<lambda>h. (h, m)) ?hs,
                console := console ?w1 @ thrown_by (listener_throws ?w1) m ?hs\<rparr>"
  let ?w3 = "invoke ?h m ?w2"
  have e3: "emit ?e m ?w1 = ?w3"
    using st(1) assms(1) by (rule emit_listeners_then_waiter)
  have w3: "?w3 = ?w2\<lparr>calls := calls ?w2 @ [(?h, m)]\<rparr>"
    using assms(4) by (simp add: invoke_def)
  have h3m: "eventHandlers ?w3 ''message'' = eventHandlers w ''message''"
    using st(2) [of "''message''"] by (simp add: w3)
  have l3: "list_all is_listener (handlers_for ?w3 ''message'')"
    using assms(2) h3m by (simp add: handlers_for_def)
  let ?w4 = "emit ''message'' m ?w3"
  have w4: "?w4 = ?w3\<lparr>calls := calls ?w3 @ map (\<lambda>h. (h, m)) (handlers_for ?w3 ''message''),
       console := console ?w3 @ thrown_by (listener_throws ?w3) m (handlers_for ?w3 ''message'')\<rparr>"
    using l3 by (rule emit_listeners)
  have "step (SockMessage s (Encoded m)) ?w1 = ?w4"
    using assms(3) e3 by (simp add: ws_onmessage_def handleMessage_def)
  moreover have "promises ?w4 ?p = promises ?w3 ?p" "eventHandlers ?w4 ?e = eventHandlers ?w3 ?e"
    by (simp_all add: w4)
  moreover have "promises ?w3 ?p = promises ?w1 ?p" "eventHandlers ?w3 ?e = eventHandlers ?w1 ?e"
    by (simp_all add: w3)
  ultimately show ?thesis
    using st(1,3) by (simp add: handlers_for_def)
qed

theorem waiter_ignores_other_job_witness:
  "handlers_for hooked_client ''execution_update'' = [Listener 2] \<and>
   execution_id (completion_of ''K'') \<noteq> Some ''J'' \<and>
   promises (step (SockMessage 1 (Encoded (completion_of ''K'')))
              (waitForCompletion ''J'' None hooked_client)) 2 =
     Some \<lparr>pstate = Pending, awaited_by = Caller\<rparr> \<and>
   handlers_for (step (SockMessage 1 (Encoded (completion_of ''K'')))
              (waitForCompletion ''J'' None hooked_client)) ''execution_update'' =
     [Listener 2, WaitForCompletionHandler ''J'' 3 2]"
proof -
  have a: "handlers_for hooked_client ''execution_update'' = [Listener 2]"
    and b: "handlers_for hooked_client ''message'' = [Listener 1]"
    and n: "next_id hooked_client = 2"
    by (simp_all add: hooked_client_def handlers_for_def eval_defs)
  have la: "list_all is_listener (handlers_for hooked_client ''execution_update'')"
    and lb: "list_all is_listener (handlers_for hooked_client ''message'')"
    using a b by simp_all
  have m: "msg_type (completion_of ''K'') = ''execution_update''"
    "execution_id (completion_of ''K'') \<noteq> Some ''J''"
    by (simp_all add: completion_of_def)
  from waiter_ignores_other_job [OF la lb m, of 1 None] a n m(2)
  show ?thesis by simp
qed

text \<open>
  Third: the timeout is scheduled with the given delay, 30000 ms when none is given; when
  it comes due the promise is rejected with the timeout error and the handler is
  deregistered.
\<close>

theorem waiter_times_out:
  assumes "list_all is_listener (handlers_for w ''execution_update'')"
    and "\<forall>x \<in> set (timers w). timer_id x \<noteq> Suc (next_id w)"
  shows "scheduled (waitForCompletion j timeout w) =
           scheduled w @
             [\<lparr>timer_id = Suc (next_id w),
               delay = (case timeout of None \<Rightarrow> 30000 | Some t \<Rightarrow> t),
               callback = WaitForCompletionTimeout j
                 (WaitForCompletionHandler j (Suc (next_id w)) (next_id w)) (next_id w)\<rparr>] \<and>
         promises (step (TimerFire (Suc (next_id w))) (waitForCompletion j timeout w)) (next_id w) =
           Some \<lparr>pstate = Rejected (Error (''Timeout waiting for execution '' @ j @ '' completion'')),
                 awaited_by = Caller\<rparr> \<and>
         handlers_for (step (TimerFire (Suc (next_id w))) (waitForCompletion j timeout w))
           ''execution_update'' = handlers_for w ''execution_update''"
proof -
  let ?e = "''execution_update''"
  let ?w1 = "waitForCompletion j timeout w"
  let ?p = "next_id w"
  let ?h = "WaitForCompletionHandler j (Suc ?p) ?p"
  let ?hs = "handlers_for w ?e"
  let ?tm = "\<lparr>timer_id = Suc ?p, delay = (case timeout of None \<Rightarrow> 30000 | Some t \<Rightarrow> t),
              callback = WaitForCompletionTimeout j ?h ?p\<rparr>"
  note st = waitForCompletion_state [where j = j and timeout = timeout and w = w]
  have notin: "?h \<notin> set ?hs"
    using assms(1) by (rule is_listener_not_waiter)
  have "find (\<lambda>x. timer_id x = Suc ?p) (timers w) = None"
    using assms(2) by (simp add: find_None_iff)
  then have f: "find (\<lambda>x. timer_id x = Suc ?p) (timers ?w1) = Some ?tm"
    by (simp add: st(4) find_append_None)
  let ?w2 = "off ?e ?h (clearTimeout (Suc ?p) ?w1)"
  have fire: "fire_timer (Suc ?p) ?w1 =
      reject ?p (Error (''Timeout waiting for execution '' @ j @ '' completion'')) ?w2"
    using f by (simp add: fire_timer_def Let_def)
  have p2: "promises ?w2 ?p = Some \<lparr>pstate = Pending, awaited_by = Caller\<rparr>"
    using st(3) by (simp add: off_fields clearTimeout_def)
  have h2: "eventHandlers ?w2 ?e = Some ?hs"
    using st(1) notin by (simp add: off_def clearTimeout_def remove1_append)
  have "scheduled ?w1 = scheduled w @ [?tm]"
    by (simp add: waitForCompletion_def Let_def on_def setTimeout_def)
  moreover have "promises (step (TimerFire (Suc ?p)) ?w1) ?p =
      Some \<lparr>pstate = Rejected (Error (''Timeout waiting for execution '' @ j @ '' completion'')),
            awaited_by = Caller\<rparr>"
    using p2 by (simp add: fire reject_def)
  moreover have "handlers_for (step (TimerFire (Suc ?p)) ?w1) ?e = ?hs"
    using h2 by (simp add: fire reject_fields handlers_for_def)
  ultimately show ?thesis by blast
qed

theorem waiter_times_out_witness:
  "handlers_for hooked_client ''execution_update'' = [Listener 2] \<and>
   timers hooked_client = [] \<and>
   scheduled (waitForCompletion ''J'' None hooked_client) =
     [\<lparr>timer_id = 3, delay = 30000,
       callback = WaitForCompletionTimeout ''J'' (WaitForCompletionHandler ''J'' 3 2) 2\<rparr>] \<and>
   promises (step (TimerFire 3) (waitForCompletion ''J'' None hooked_client)) 2 =
     Some \<lparr>pstate = Rejected (Error ''Timeout waiting for execution J completion''),
           awaited_by = Caller\<rparr> \<and>
   handlers_for (step (TimerFire 3) (waitForCompletion ''J'' None hooked_client))
     ''execution_update'' = [Listener 2]"
proof -
  have a: "handlers_for hooked_client ''execution_update'' = [Listener 2]"
    and n: "next_id hooked_client = 2"
    and t: "timers hooked_client = []" "scheduled hooked_client = []"
    by (simp_all add: hooked_client_def handlers_for_def eval_defs)
  have la: "list_all is_listener (handlers_for hooked_client ''execution_update'')"
    using a by simp
  have lt: "\<forall>x \<in> set (timers hooked_client). timer_id x \<noteq> Suc (next_id hooked_client)"
    using t by simp
  from waiter_times_out [OF la lt, of "''J''" None] a n t
  show ?thesis by simp
qed

section \<open>The update history\<close>












end
